theory Spec2Isabelle
  imports Main
begin

section \<open>The note route: data model\<close>

text \<open>
  The route module \<^verbatim>\<open>app/routes/users+/$username_+/notes.$noteId.tsx\<close> reads and deletes
  notes through Prisma. The Prisma schema is not part of the module; the rows below carry
  the columns and relations that the module's queries name. A relation is held the way a
  query walks it: a note row holds its owner, a permission row holds its roles, and a role
  holds its users. JavaScript strings are lists of code units; \<open>length\<close> counts them.
\<close>

record user =
  user_id :: string
  username :: string

record image =
  image_id :: string
  altText :: "string option"

record note_row =
  note_id :: string
  title :: string
  content :: string
  ownerId :: string
  owner :: user
  updatedAt :: nat
  images :: "image list"

record role =
  users :: "user list"

record permission =
  permission_id :: string
  entity :: string
  action_name :: string
  access :: string
  roles :: "role list"

subsection \<open>Prisma queries\<close>

text \<open>
  The \<open>access\<close> condition of a permission query is either a plain string (equality) or
  \<^verbatim>\<open>{ in: [...] }\<close>.
\<close>

datatype access_filter = AccessIs string | AccessIn "string list"

text \<open>
  The \<open>where\<close> object of both permission queries:
  \<^verbatim>\<open>{ roles: { some: { users: { some: { id } } } }, entity, action, access }\<close>.
\<close>

record permission_where =
  where_userId :: string
  where_entity :: string
  where_action :: string
  where_access :: access_filter

datatype query =
    NoteFindUnique string
  | NoteFindFirst string
  | PermissionFindFirst permission_where
  | NoteDelete string

text \<open>
  The store: the two tables the module touches, and the queries issued so far, oldest
  first. The list of issued queries is what lets a statement say that a query was, or was
  not, sent.
\<close>

record prisma =
  note_table :: "note_row list"
  permission_table :: "permission list"
  issued :: "query list"

definition issue :: "query \<Rightarrow> prisma \<Rightarrow> prisma" where
  "issue q s = s\<lparr>issued := issued s @ [q]\<rparr>"

text \<open>\<^verbatim>\<open>prisma.note.findUnique({ where: { id } })\<close>; \<open>id\<close> is the primary key.\<close>

definition note_findUnique :: "string \<Rightarrow> prisma \<Rightarrow> note_row option \<times> prisma" where
  "note_findUnique k s = (find (\<lambda>n. note_id n = k) (note_table s), issue (NoteFindUnique k) s)"

text \<open>\<^verbatim>\<open>prisma.note.findFirst({ where: { id } })\<close>.\<close>

definition note_findFirst :: "string \<Rightarrow> prisma \<Rightarrow> note_row option \<times> prisma" where
  "note_findFirst k s = (find (\<lambda>n. note_id n = k) (note_table s), issue (NoteFindFirst k) s)"

text \<open>
  \<^verbatim>\<open>prisma.note.delete({ where: { id } })\<close> removes the row with that primary key and
  rejects (here \<open>None\<close>) when there is no such row.
\<close>

definition note_delete :: "string \<Rightarrow> prisma \<Rightarrow> prisma option" where
  "note_delete k s =
     (if \<exists>n \<in> set (note_table s). note_id n = k
      then Some (issue (NoteDelete k) (s\<lparr>note_table := filter (\<lambda>n. note_id n \<noteq> k) (note_table s)\<rparr>))
      else None)"

definition access_matches :: "access_filter \<Rightarrow> string \<Rightarrow> bool" where
  "access_matches f a = (case f of AccessIs x \<Rightarrow> a = x | AccessIn xs \<Rightarrow> a \<in> set xs)"

definition permission_matches :: "permission_where \<Rightarrow> permission \<Rightarrow> bool" where
  "permission_matches w p \<longleftrightarrow>
     (\<exists>r \<in> set (roles p). \<exists>u \<in> set (users r). user_id u = where_userId w) \<and>
     entity p = where_entity w \<and>
     action_name p = where_action w \<and>
     access_matches (where_access w) (access p)"

text \<open>
  \<^verbatim>\<open>prisma.permission.findFirst({ select: { id: true }, where })\<close>: the id of the first
  matching row, or null.
\<close>

definition permission_findFirst :: "permission_where \<Rightarrow> prisma \<Rightarrow> string option \<times> prisma" where
  "permission_findFirst w s =
     (map_option permission_id (find (permission_matches w) (permission_table s)),
      issue (PermissionFindFirst w) s)"

section \<open>Requests and responses\<close>

datatype form_value = FormString string | FormFile string

record request =
  cookie :: string
  formData :: "(string \<times> form_value) list"

record params =
  param_username :: string
  param_noteId :: string

record data_function_args =
  request :: request
  params :: params

text \<open>The value a valid delete form parses to (\<open>DeleteFormSchema\<close>).\<close>

record delete_form =
  form_intent :: string
  noteId :: string

text \<open>The issues zod reports for the fields of the delete form, by field name.\<close>

datatype zod_issue = InvalidLiteral string | Required | ExpectedString

type_synonym field_errors = "(string \<times> zod_issue list) list"

text \<open>
  A conform submission: the submission's intent, the payload, the field errors, and the
  parsed value, present exactly when validation succeeded.
\<close>

record submission =
  intent :: string
  payload :: "(string \<times> form_value) list"
  error :: field_errors
  submission_value :: "delete_form option"

text \<open>The data the loader hands to the view (the \<open>select\<close> of its note query).\<close>

record loader_note =
  data_id :: string
  data_title :: string
  data_content :: string
  data_ownerId :: string
  data_updatedAt :: nat
  data_images :: "image list"

record loader_data =
  data_note :: loader_note
  timeAgo :: string
  canDelete :: bool

datatype body =
    LoaderData loader_data
  | ActionData string submission
  | JsonObject "(string \<times> string) list"
  | Text string
  | Empty

record response =
  status :: nat
  location :: "string option"
  body :: body

text \<open>A handler either returns a response or throws one.\<close>

datatype outcome = Returned response | Thrown response

text \<open>Remix's \<open>json(data, { status })\<close> (status 200 when none is given) and \<open>redirect(url)\<close>.\<close>

definition json :: "body \<Rightarrow> nat \<Rightarrow> response" where
  "json d st = \<lparr>status = st, location = None, body = d\<rparr>"

definition redirect :: "string \<Rightarrow> response" where
  "redirect url = \<lparr>status = 302, location = Some url, body = Empty\<rparr>"

text \<open>
  Modelled from the spec: \<open>invariantResponse\<close> lives in \<^verbatim>\<open>~/utils/misc.tsx\<close>, which is not
  among the sources. The spec (4.1, 4.3) says the handlers fail with a not-found condition
  (HTTP 404) when the note is absent: a response with the given message and status is
  thrown when the condition is null, and the value is passed on otherwise.
\<close>

definition invariantResponse :: "'a option \<Rightarrow> string \<Rightarrow> nat \<Rightarrow> response + 'a" where
  "invariantResponse condition message st =
     (case condition of
        None \<Rightarrow> Inl \<lparr>status = st, location = None, body = Text message\<rparr>
      | Some x \<Rightarrow> Inr x)"

section \<open>The loader\<close>

definition select_loader_note :: "note_row \<Rightarrow> loader_note" where
  "select_loader_note n =
     \<lparr>data_id = note_id n, data_title = title n, data_content = content n,
      data_ownerId = ownerId n, data_updatedAt = updatedAt n, data_images = images n\<rparr>"

text \<open>
  The \<open>where\<close> object of lines 58-63 and 105-110: the access scope asked for is
  \<open>any\<close> or \<open>own\<close> when the requesting user owns the note, and \<open>any\<close> otherwise.
\<close>

definition delete_permission_where :: "string \<Rightarrow> string \<Rightarrow> permission_where" where
  "delete_permission_where userId noteOwnerId =
     \<lparr>where_userId = userId, where_entity = ''note'', where_action = ''delete'',
      where_access = (if noteOwnerId = userId then AccessIn [''any'', ''own''] else AccessIs ''any'')\<rparr>"

text \<open>
  \<open>getUserId\<close> (the session's optional user id) and date-fns' \<open>formatDistanceToNow\<close> are
  collaborators outside the module and are parameters here. The test \<^verbatim>\<open>userId ? ... : null\<close>
  is JavaScript truthiness: null and the empty string both take the null branch.
\<close>

definition loader ::
  "(request \<Rightarrow> string option) \<Rightarrow> (nat \<Rightarrow> string) \<Rightarrow> prisma \<Rightarrow> data_function_args
     \<Rightarrow> outcome \<times> prisma" where
  "loader getUserId formatDistanceToNow s args =
     (let userId = getUserId (request args);
          (found, s1) = note_findUnique (param_noteId (params args)) s
      in case invariantResponse found ''Not found'' 404 of
           Inl r \<Rightarrow> (Thrown r, s1)
         | Inr n \<Rightarrow>
             let timeAgo = formatDistanceToNow (updatedAt n);
                 (permission, s2) =
                   (case userId of
                      None \<Rightarrow> (None, s1)
                    | Some u \<Rightarrow>
                        if u = [] then (None, s1)
                        else permission_findFirst (delete_permission_where u (ownerId n)) s1)
             in (Returned (json (LoaderData \<lparr>data_note = select_loader_note n,
                                             timeAgo = timeAgo,
                                             canDelete = (permission \<noteq> None)\<rparr>) 200), s2))"

section \<open>The delete action\<close>

text \<open>
  \<open>DeleteFormSchema\<close> is \<^verbatim>\<open>z.object({ intent: z.literal('delete-note'), noteId: z.string() })\<close>.
  A payload is the object built from the form's entries, read by field name. The literal
  field accepts exactly the string \<open>delete-note\<close>; the string field accepts any string and
  is reported as required when it is missing. The result is either the issues, by field,
  or the parsed value.
\<close>

definition literal_delete_note :: "form_value option \<Rightarrow> zod_issue list + string" where
  "literal_delete_note v =
     (case v of
        Some (FormString x) \<Rightarrow>
          if x = ''delete-note'' then Inr x else Inl [InvalidLiteral ''delete-note'']
      | _ \<Rightarrow> Inl [InvalidLiteral ''delete-note''])"

definition zod_string :: "form_value option \<Rightarrow> zod_issue list + string" where
  "zod_string v =
     (case v of
        None \<Rightarrow> Inl [Required]
      | Some (FormString x) \<Rightarrow> Inr x
      | Some (FormFile _) \<Rightarrow> Inl [ExpectedString])"

definition field_issues :: "string \<Rightarrow> zod_issue list + string \<Rightarrow> field_errors" where
  "field_issues k r = (case r of Inl is \<Rightarrow> [(k, is)] | Inr _ \<Rightarrow> [])"

definition DeleteFormSchema :: "(string \<times> form_value) list \<Rightarrow> field_errors + delete_form" where
  "DeleteFormSchema p =
     (let i = literal_delete_note (map_of p ''intent'');
          n = zod_string (map_of p ''noteId'')
      in case (i, n) of
           (Inr iv, Inr nv) \<Rightarrow> Inr \<lparr>form_intent = iv, noteId = nv\<rparr>
         | _ \<Rightarrow> Inl (field_issues ''intent'' i @ field_issues ''noteId'' n))"

text \<open>
  A stand-in for the parser of the conform library, which is not part of the module. It is
  meant only for forms in which every field name occurs once, and is used only to run the
  action on such forms: the submission's intent is the value of conform's reserved field
  \<open>__intent__\<close> (\<open>submit\<close> when the form has none), the payload is the remaining
  entries, and the value is present exactly when the schema accepts the payload. What the
  library does with a repeated field name is not described by it. The action itself takes
  the parser as a parameter, so the results about the action hold for every parser.
\<close>

definition conform_parse ::
  "(string \<times> form_value) list \<Rightarrow> ((string \<times> form_value) list \<Rightarrow> field_errors + delete_form)
     \<Rightarrow> submission" where
  "conform_parse fd schema =
     (let i = (case map_of fd ''__intent__'' of Some (FormString x) \<Rightarrow> x | _ \<Rightarrow> ''submit'');
          p = filter (\<lambda>(k, v). k \<noteq> ''__intent__'') fd
      in case schema p of
           Inl e \<Rightarrow> \<lparr>intent = i, payload = p, error = e, submission_value = None\<rparr>
         | Inr v \<Rightarrow> \<lparr>intent = i, payload = p, error = [], submission_value = Some v\<rparr>)"

text \<open>The \<open>select\<close> of the action's note query: id, owner id and the owner's username.\<close>

record action_note =
  selected_id :: string
  selected_ownerId :: string
  selected_owner_username :: string

definition select_action_note :: "note_row \<Rightarrow> action_note" where
  "select_action_note n =
     \<lparr>selected_id = note_id n, selected_ownerId = ownerId n,
      selected_owner_username = username (owner n)\<rparr>"

definition unauthorized :: response where
  "unauthorized =
     json (JsonObject [(''error'', ''Unauthorized''),
                       (''message'', ''Unauthorized: requires permission delete:note'')]) 403"

text \<open>
  A handler's result: a returned response, a thrown response, or a thrown error that is
  not a response (a rejected Prisma call).
\<close>

datatype action_outcome = Done outcome | Rejected string

text \<open>
  \<open>requireUserId\<close> (the session's user id, or a thrown response when there is none) and
  conform's \<open>parse\<close> are collaborators outside the module and are parameters. The route
  parameters are part of the arguments but the action reads only the request.
\<close>

definition action ::
  "((string \<times> form_value) list \<Rightarrow> ((string \<times> form_value) list \<Rightarrow> field_errors + delete_form)
      \<Rightarrow> submission)
   \<Rightarrow> (request \<Rightarrow> response + string) \<Rightarrow> prisma \<Rightarrow> data_function_args
   \<Rightarrow> action_outcome \<times> prisma" where
  "action parse requireUserId s args =
     (case requireUserId (request args) of
        Inl r \<Rightarrow> (Done (Thrown r), s)
      | Inr userId \<Rightarrow>
          let submission = parse (formData (request args)) DeleteFormSchema
          in if intent submission \<noteq> ''submit''
             then (Done (Returned (json (ActionData ''idle'' submission) 200)), s)
             else
               (case submission_value submission of
                  None \<Rightarrow> (Done (Returned (json (ActionData ''error'' submission) 400)), s)
                | Some v \<Rightarrow>
                    let (found, s1) = note_findFirst (noteId v) s
                    in case invariantResponse (map_option select_action_note found)
                              ''Not found'' 404 of
                         Inl r \<Rightarrow> (Done (Thrown r), s1)
                       | Inr n \<Rightarrow>
                           let (permission, s2) =
                                 permission_findFirst
                                   (delete_permission_where userId (selected_ownerId n)) s1
                           in if permission = None
                              then (Done (Thrown unauthorized), s2)
                              else
                                (case note_delete (selected_id n) s2 of
                                   None \<Rightarrow> (Rejected ''Record to delete does not exist'', s2)
                                 | Some s3 \<Rightarrow>
                                     (Done (Returned (redirect (''/users/'' @
                                        selected_owner_username n @ ''/notes''))), s3))))"

section \<open>The view\<close>

text \<open>
  What \<open>NoteRoute\<close> renders, as far as its content depends on the data: the title, the
  image links, the content, the bottom padding class, and the floating toolbar when it is
  displayed. The toolbar holds the time label, the delete form (given the note id) when it
  is rendered, and the edit link.
\<close>

record toolbar =
  toolbar_label :: string
  toolbar_delete :: "string option"
  toolbar_edit :: string

record note_view =
  view_title :: string
  view_padding :: string
  view_images :: "(string \<times> string) list"
  view_content :: string
  view_toolbar :: "toolbar option"

text \<open>
  \<open>useOptionalUser\<close> is the logged-in user or undefined; \<open>getNoteImgSrc\<close> is the
  image-URL resolver. Both come from outside the module.
\<close>

definition NoteRoute :: "(string \<Rightarrow> string) \<Rightarrow> loader_data \<Rightarrow> user option \<Rightarrow> note_view" where
  "NoteRoute getNoteImgSrc data optionalUser =
     (let isOwner = (case optionalUser of None \<Rightarrow> False
                     | Some u \<Rightarrow> user_id u = data_ownerId (data_note data));
          displayBar = (canDelete data \<or> isOwner)
      in \<lparr>view_title = data_title (data_note data),
          view_padding = (if displayBar then ''pb-24'' else ''pb-12''),
          view_images = map (\<lambda>i. (getNoteImgSrc (image_id i),
                                   (case altText i of None \<Rightarrow> [] | Some a \<Rightarrow> a)))
                            (data_images (data_note data)),
          view_content = data_content (data_note data),
          view_toolbar =
            (if displayBar
             then Some \<lparr>toolbar_label = timeAgo data @ '' ago'',
                        toolbar_delete = (if canDelete data then Some (data_id (data_note data))
                                          else None),
                        toolbar_edit = ''edit''\<rparr>
             else None)\<rparr>)"

text \<open>
  What a viewer sees of the toolbar in a rendered view: whether the bar is there, whether
  the delete form is in it, whether the edit link is in it; and whether the viewer is the
  owner of the loaded note (\<open>isOwner\<close> of the view).
\<close>

definition bar_shown :: "note_view \<Rightarrow> bool" where
  "bar_shown v = (view_toolbar v \<noteq> None)"

definition delete_shown :: "note_view \<Rightarrow> bool" where
  "delete_shown v = (case view_toolbar v of None \<Rightarrow> False | Some t \<Rightarrow> toolbar_delete t \<noteq> None)"

definition edit_shown :: "note_view \<Rightarrow> bool" where
  "edit_shown v = (case view_toolbar v of None \<Rightarrow> False | Some t \<Rightarrow> toolbar_edit t = ''edit'')"

definition is_owner :: "user option \<Rightarrow> loader_data \<Rightarrow> bool" where
  "is_owner ou d = (case ou of None \<Rightarrow> False | Some u \<Rightarrow> user_id u = data_ownerId (data_note d))"

text \<open>The status handlers of the route's error boundary: what a 403 and a 404 render.\<close>

definition statusHandlers :: "nat \<Rightarrow> params \<Rightarrow> string option" where
  "statusHandlers st ps =
     (if st = 403 then Some ''You are not allowed to do that''
      else if st = 404
      then Some (''No note with the id '' @ [CHR 0x22] @ param_noteId ps @ [CHR 0x22] @ '' exists'')
      else None)"

section \<open>Page metadata\<close>

record notes_loader_data =
  owner_name :: "string option"

record route_match =
  match_id :: string
  match_data :: "notes_loader_data option"

record meta_args =
  meta_data :: "loader_data option"
  meta_params :: params
  meta_matches :: "route_match list"

datatype meta_descriptor = MetaTitle string | MetaName string string

definition meta :: "meta_args \<Rightarrow> meta_descriptor list" where
  "meta a =
     (let notesMatch = find (\<lambda>m. match_id m = ''routes/users+/$username_+/notes'') (meta_matches a);
          displayName =
            (case notesMatch of
               None \<Rightarrow> param_username (meta_params a)
             | Some m \<Rightarrow>
                 (case match_data m of
                    None \<Rightarrow> param_username (meta_params a)
                  | Some d \<Rightarrow>
                      (case owner_name d of
                         None \<Rightarrow> param_username (meta_params a)
                       | Some nm \<Rightarrow> nm)));
          noteTitle = (case meta_data a of None \<Rightarrow> ''Note'' | Some d \<Rightarrow> data_title (data_note d));
          noteContentsSummary =
            (case meta_data a of
               None \<Rightarrow> ''No content''
             | Some d \<Rightarrow>
                 if length (data_content (data_note d)) > 100
                 then take 97 (data_content (data_note d)) @ ''...''
                 else ''No content'')
      in [MetaTitle (noteTitle @ '' | '' @ displayName @ [CHR 0x27] @ ''s Notes | Epic Notes''),
          MetaName ''description'' noteContentsSummary])"

section \<open>The delete-permission predicate, in the words of the specification\<close>

text \<open>
  A user holds a permission when one of the permission's roles has the user among its
  users. The specification's predicate: some permission held by the user has entity
  \<open>note\<close>, action \<open>delete\<close>, and access scope \<open>any\<close>, or access scope \<open>own\<close> while the
  requesting user is the note's owner.
\<close>

definition holds_permission :: "string \<Rightarrow> permission \<Rightarrow> bool" where
  "holds_permission userId p \<longleftrightarrow> (\<exists>r \<in> set (roles p). \<exists>u \<in> set (users r). user_id u = userId)"

definition can_delete :: "permission list \<Rightarrow> string \<Rightarrow> string \<Rightarrow> bool" where
  "can_delete ps userId noteOwnerId \<longleftrightarrow>
     (\<exists>p \<in> set ps.
        holds_permission userId p \<and> entity p = ''note'' \<and> action_name p = ''delete'' \<and>
        (access p = ''any'' \<or> (access p = ''own'' \<and> userId = noteOwnerId)))"

section \<open>A small store to run the handlers on\<close>

text \<open>
  Two users and two notes. Both users hold the permission to delete their own notes through
  the \<open>user\<close> role; nobody holds the permission to delete any note. Kody owns the first
  note, Hannah the second.
\<close>

definition kody :: user where
  "kody = \<lparr>user_id = ''u1'', username = ''kody''\<rparr>"

definition hannah :: user where
  "hannah = \<lparr>user_id = ''u2'', username = ''hannah''\<rparr>"

definition kody_note :: note_row where
  "kody_note = \<lparr>note_id = ''n1'', title = ''Koalas'', content = ''Koalas sleep a lot.'',
                 ownerId = ''u1'', owner = kody, updatedAt = 7, images = []\<rparr>"

definition hannah_note :: note_row where
  "hannah_note = \<lparr>note_id = ''n2'', title = ''Tea'', content = replicate 101 (CHR ''t''),
                   ownerId = ''u2'', owner = hannah, updatedAt = 9, images = []\<rparr>"

definition delete_own :: permission where
  "delete_own = \<lparr>permission_id = ''p1'', entity = ''note'', action_name = ''delete'',
                  access = ''own'', roles = [\<lparr>users = [kody, hannah]\<rparr>]\<rparr>"

definition delete_any :: permission where
  "delete_any = \<lparr>permission_id = ''p2'', entity = ''note'', action_name = ''delete'',
                  access = ''any'', roles = [\<lparr>users = []\<rparr>]\<rparr>"

definition demo_store :: prisma where
  "demo_store = \<lparr>note_table = [kody_note, hannah_note],
                  permission_table = [delete_any, delete_own], issued = []\<rparr>"

text \<open>The session accessors: the cookie \<open>kody\<close> is Kody's session, any other is none.\<close>

definition demo_getUserId :: "request \<Rightarrow> string option" where
  "demo_getUserId r = (if cookie r = ''kody'' then Some ''u1'' else None)"

definition demo_requireUserId :: "request \<Rightarrow> response + string" where
  "demo_requireUserId r = (if cookie r = ''kody'' then Inr ''u1'' else Inl (redirect ''/login''))"

definition demo_time :: "nat \<Rightarrow> string" where
  "demo_time t = ''3 days''"

text \<open>A visit to a note, and a submitted delete form, for a cookie, a route and a form.\<close>

definition visit :: "string \<Rightarrow> string \<Rightarrow> string \<Rightarrow> data_function_args" where
  "visit c u k = \<lparr>request = \<lparr>cookie = c, formData = []\<rparr>,
                  params = \<lparr>param_username = u, param_noteId = k\<rparr>\<rparr>"

definition submit :: "string \<Rightarrow> string \<Rightarrow> string \<Rightarrow> (string \<times> form_value) list \<Rightarrow> data_function_args" where
  "submit c u k fd = \<lparr>request = \<lparr>cookie = c, formData = fd\<rparr>,
                      params = \<lparr>param_username = u, param_noteId = k\<rparr>\<rparr>"

definition delete_form_of :: "string \<Rightarrow> (string \<times> form_value) list" where
  "delete_form_of k = [(''noteId'', FormString k), (''intent'', FormString ''delete-note'')]"

text \<open>
  The same notes in a store with no permission at all, the data the loader gives the owner
  of the first note there, and the arguments of \<open>meta\<close> for a loaded note.
\<close>

definition bare_store :: prisma where
  "bare_store = \<lparr>note_table = [kody_note, hannah_note], permission_table = [], issued = []\<rparr>"

definition owner_data :: loader_data where
  "owner_data = \<lparr>data_note = select_loader_note kody_note, timeAgo = ''3 days'',
                  canDelete = False\<rparr>"

definition loaded :: "note_row \<Rightarrow> meta_args" where
  "loaded n = \<lparr>meta_data = Some \<lparr>data_note = select_loader_note n, timeAgo = ''3 days'',
                                  canDelete = False\<rparr>,
               meta_params = \<lparr>param_username = username (owner n), param_noteId = note_id n\<rparr>,
               meta_matches = []\<rparr>"

section \<open>Results\<close>

abbreviation lookup_note :: "string \<Rightarrow> prisma \<Rightarrow> note_row option" where
  "lookup_note k s \<equiv> find (\<lambda>n. note_id n = k) (note_table s)"

abbreviation submitted ::
  "((string \<times> form_value) list \<Rightarrow> ((string \<times> form_value) list \<Rightarrow> field_errors + delete_form)
      \<Rightarrow> submission) \<Rightarrow> data_function_args \<Rightarrow> submission" where
  "submitted parse args \<equiv> parse (formData (request args)) DeleteFormSchema"

abbreviation not_found :: response where
  "not_found \<equiv> \<lparr>status = 404, location = None, body = Text ''Not found''\<rparr>"

subsection \<open>The store\<close>

lemma issue_simps [simp]:
  "note_table (issue q s) = note_table s"
  "permission_table (issue q s) = permission_table s"
  "issued (issue q s) = issued s @ [q]"
  by (simp_all add: issue_def)

lemma find_note_Some:
  "find (\<lambda>n. note_id n = k) ns = Some n \<Longrightarrow> note_id n = k \<and> n \<in> set ns"
  by (auto simp: find_Some_iff)

text \<open>
  The permission query of the module finds a row exactly when the specification's predicate
  holds: the two access conditions of the query are the two disjuncts of the predicate.
\<close>

lemma permission_found_iff:
  "(find (permission_matches (delete_permission_where u ow)) ps \<noteq> None) = can_delete ps u ow"
  by (auto simp: find_None_iff permission_matches_def delete_permission_where_def
        can_delete_def holds_permission_def access_matches_def)

subsection \<open>The paths of the loader\<close>

lemma loader_found:
  assumes "lookup_note (param_noteId (params args)) s = Some n"
  shows "loader getUserId fmt s args =
     (Returned (json (LoaderData \<lparr>data_note = select_loader_note n,
                                   timeAgo = fmt (updatedAt n),
                                   canDelete =
                                     (case getUserId (request args) of
                                        None \<Rightarrow> False
                                      | Some u \<Rightarrow> u \<noteq> [] \<and> can_delete (permission_table s) u (ownerId n))\<rparr>) 200),
      (case getUserId (request args) of
         None \<Rightarrow> issue (NoteFindUnique (param_noteId (params args))) s
       | Some u \<Rightarrow>
           if u = [] then issue (NoteFindUnique (param_noteId (params args))) s
           else issue (PermissionFindFirst (delete_permission_where u (ownerId n)))
                  (issue (NoteFindUnique (param_noteId (params args))) s)))"
  using assms permission_found_iff [of _ "ownerId n" "permission_table s"]
  by (simp add: loader_def note_findUnique_def invariantResponse_def permission_findFirst_def
        Let_def split: option.splits)

lemma loader_missing:
  assumes "lookup_note (param_noteId (params args)) s = None"
  shows "loader getUserId fmt s args =
     (Thrown not_found, issue (NoteFindUnique (param_noteId (params args))) s)"
  using assms
  by (simp add: loader_def note_findUnique_def invariantResponse_def Let_def)

subsection \<open>The paths of the action\<close>

lemma action_unauthenticated:
  "requireUserId (request args) = Inl r \<Longrightarrow> action parse requireUserId s args = (Done (Thrown r), s)"
  by (simp add: action_def)

lemma action_not_submit:
  assumes "requireUserId (request args) = Inr u"
    and "intent (submitted parse args) \<noteq> ''submit''"
  shows "action parse requireUserId s args =
     (Done (Returned (json (ActionData ''idle'' (submitted parse args)) 200)), s)"
  using assms by (simp add: action_def Let_def)

lemma action_invalid:
  assumes "requireUserId (request args) = Inr u"
    and "intent (submitted parse args) = ''submit''"
    and "submission_value (submitted parse args) = None"
  shows "action parse requireUserId s args =
     (Done (Returned (json (ActionData ''error'' (submitted parse args)) 400)), s)"
  using assms by (simp add: action_def Let_def)

lemma action_missing:
  assumes "requireUserId (request args) = Inr u"
    and "intent (submitted parse args) = ''submit''"
    and "submission_value (submitted parse args) = Some v"
    and "lookup_note (noteId v) s = None"
  shows "action parse requireUserId s args =
     (Done (Thrown not_found), issue (NoteFindFirst (noteId v)) s)"
  using assms by (simp add: action_def Let_def note_findFirst_def invariantResponse_def)

lemma action_forbidden:
  assumes "requireUserId (request args) = Inr u"
    and "intent (submitted parse args) = ''submit''"
    and "submission_value (submitted parse args) = Some v"
    and "lookup_note (noteId v) s = Some n"
    and "\<not> can_delete (permission_table s) u (ownerId n)"
  shows "action parse requireUserId s args =
     (Done (Thrown unauthorized),
      issue (PermissionFindFirst (delete_permission_where u (ownerId n)))
        (issue (NoteFindFirst (noteId v)) s))"
  using assms permission_found_iff [of u "ownerId n" "permission_table s"]
  by (simp add: action_def Let_def note_findFirst_def invariantResponse_def
        permission_findFirst_def select_action_note_def)

lemma action_allowed:
  assumes "requireUserId (request args) = Inr u"
    and "intent (submitted parse args) = ''submit''"
    and "submission_value (submitted parse args) = Some v"
    and "lookup_note (noteId v) s = Some n"
    and "can_delete (permission_table s) u (ownerId n)"
  shows "action parse requireUserId s args =
     (Done (Returned (redirect (''/users/'' @ username (owner n) @ ''/notes''))),
      issue (NoteDelete (noteId v))
        ((issue (PermissionFindFirst (delete_permission_where u (ownerId n)))
           (issue (NoteFindFirst (noteId v)) s))
         \<lparr>note_table := filter (\<lambda>m. note_id m \<noteq> noteId v) (note_table s)\<rparr>))"
proof -
  from assms(4) have n: "note_id n = noteId v" "n \<in> set (note_table s)"
    using find_note_Some by blast+
  from assms(5) obtain z where
    z: "find (permission_matches (delete_permission_where u (ownerId n))) (permission_table s) = Some z"
    using permission_found_iff [of u "ownerId n" "permission_table s"] by auto
  have del: "note_delete (noteId v)
               (issue (PermissionFindFirst (delete_permission_where u (ownerId n)))
                 (issue (NoteFindFirst (noteId v)) s))
             = Some (issue (NoteDelete (noteId v))
                 ((issue (PermissionFindFirst (delete_permission_where u (ownerId n)))
                    (issue (NoteFindFirst (noteId v)) s))
                  \<lparr>note_table := filter (\<lambda>m. note_id m \<noteq> noteId v) (note_table s)\<rparr>))"
    using n by (auto simp: note_delete_def)
  show ?thesis
    using assms(1-4) z del n(1)
    by (simp add: action_def Let_def note_findFirst_def invariantResponse_def
          permission_findFirst_def select_action_note_def)
qed

text \<open>
  The delete of the action never rejects: the row was read just before. The action reads
  only the request.
\<close>

lemma action_never_rejected:
  assumes "requireUserId (request args) = Inr u"
  shows "\<exists>out. fst (action parse requireUserId s args) = Done out"
proof (cases "intent (submitted parse args) = ''submit''")
  case False
  then show ?thesis
    using assms action_not_submit [of requireUserId args u parse s] by simp
next
  case submit: True
  show ?thesis
  proof (cases "submission_value (submitted parse args)")
    case None
    then show ?thesis
      using assms submit action_invalid [of requireUserId args u parse s] by simp
  next
    case (Some v)
    show ?thesis
    proof (cases "lookup_note (noteId v) s")
      case None
      then show ?thesis
        using assms submit Some action_missing [of requireUserId args u parse v s] by simp
    next
      case found: (Some n)
      show ?thesis
      proof (cases "can_delete (permission_table s) u (ownerId n)")
        case True
        then show ?thesis
          using assms submit Some found action_allowed [of requireUserId args u parse v s n]
          by simp
      next
        case False
        then show ?thesis
          using assms submit Some found action_forbidden [of requireUserId args u parse v s n]
          by simp
      qed
    qed
  qed
qed

lemma schema_noteId:
  "DeleteFormSchema p = Inr v \<Longrightarrow> map_of p ''noteId'' = Some (FormString (noteId v))"
  by (auto simp: DeleteFormSchema_def zod_string_def Let_def
        split: sum.splits option.splits form_value.splits)

lemma action_ignores_params:
  "action parse requireUserId s (args\<lparr>params := p\<rparr>) = action parse requireUserId s args"
  by (simp add: action_def cong: sum.case_cong)

subsection \<open>The schema of the delete form\<close>

lemma schema_missing_noteId:
  "map_of p ''noteId'' = None \<Longrightarrow>
     \<exists>e. DeleteFormSchema p = Inl e \<and> (''noteId'', [Required]) \<in> set e"
  by (auto simp: DeleteFormSchema_def zod_string_def field_issues_def Let_def
        split: sum.splits)

lemma schema_wrong_intent:
  "map_of p ''intent'' \<noteq> Some (FormString ''delete-note'') \<Longrightarrow>
     \<exists>e. DeleteFormSchema p = Inl e \<and> (''intent'', [InvalidLiteral ''delete-note'']) \<in> set e"
  by (auto simp: DeleteFormSchema_def literal_delete_note_def field_issues_def Let_def
        split: sum.splits option.splits form_value.splits)

subsection \<open>The small store, evaluated\<close>

lemma demo_args [simp]:
  "request (visit c u k) = \<lparr>cookie = c, formData = []\<rparr>"
  "params (visit c u k) = \<lparr>param_username = u, param_noteId = k\<rparr>"
  "request (submit c u k fd) = \<lparr>cookie = c, formData = fd\<rparr>"
  "params (submit c u k fd) = \<lparr>param_username = u, param_noteId = k\<rparr>"
  by (simp_all add: visit_def submit_def)

lemma demo_session [simp]:
  "demo_getUserId \<lparr>cookie = ''kody'', formData = fd\<rparr> = Some ''u1''"
  "demo_getUserId \<lparr>cookie = [], formData = fd\<rparr> = None"
  "demo_requireUserId \<lparr>cookie = ''kody'', formData = fd\<rparr> = Inr ''u1''"
  by (simp_all add: demo_getUserId_def demo_requireUserId_def)

lemma demo_lookup [simp]:
  "lookup_note ''n1'' demo_store = Some kody_note"
  "lookup_note ''n2'' demo_store = Some hannah_note"
  "lookup_note ''n9'' demo_store = None"
  by (simp_all add: demo_store_def kody_note_def hannah_note_def)

lemma demo_rows [simp]:
  "ownerId kody_note = ''u1''" "ownerId hannah_note = ''u2''"
  "note_id kody_note = ''n1''" "note_id hannah_note = ''n2''"
  "username (owner kody_note) = ''kody''" "username (owner hannah_note) = ''hannah''"
  by (simp_all add: kody_note_def hannah_note_def kody_def hannah_def)

lemma demo_can_delete [simp]:
  "can_delete (permission_table demo_store) ''u1'' ''u1''"
  "\<not> can_delete (permission_table demo_store) ''u1'' ''u2''"
  by (simp_all add: can_delete_def holds_permission_def demo_store_def delete_any_def
        delete_own_def kody_def hannah_def)

lemma demo_schema [simp]:
  "DeleteFormSchema (delete_form_of k) = Inr \<lparr>form_intent = ''delete-note'', noteId = k\<rparr>"
  by (simp add: DeleteFormSchema_def delete_form_of_def literal_delete_note_def zod_string_def)

lemma demo_parse [simp]:
  "conform_parse (delete_form_of k) DeleteFormSchema =
     \<lparr>intent = ''submit'', payload = delete_form_of k, error = [],
      submission_value = Some \<lparr>form_intent = ''delete-note'', noteId = k\<rparr>\<rparr>"
proof -
  have "filter (\<lambda>(k, v). k \<noteq> ''__intent__'') (delete_form_of k) = delete_form_of k"
    by (simp add: delete_form_of_def)
  moreover have "map_of (delete_form_of k) ''__intent__'' = None"
    by (simp add: delete_form_of_def)
  ultimately show ?thesis
    by (simp add: conform_parse_def Let_def)
qed

lemma demo_issued [simp]: "issued demo_store = []"
  by (simp add: demo_store_def)

lemma demo_note_table: "note_table demo_store = [kody_note, hannah_note]"
  by (simp add: demo_store_def)

lemma demo_validate_parse:
  "conform_parse ((''__intent__'', FormString ''validate/noteId'') # delete_form_of k) DeleteFormSchema =
     \<lparr>intent = ''validate/noteId'', payload = delete_form_of k, error = [],
      submission_value = Some \<lparr>form_intent = ''delete-note'', noteId = k\<rparr>\<rparr>"
proof -
  have "filter (\<lambda>(k, v). k \<noteq> ''__intent__'')
          ((''__intent__'', FormString ''validate/noteId'') # delete_form_of k) = delete_form_of k"
    by (simp add: delete_form_of_def)
  then show ?thesis
    by (simp add: conform_parse_def Let_def)
qed

lemma demo_incomplete_parse:
  "conform_parse [(''intent'', FormString ''delete-note'')] DeleteFormSchema =
     \<lparr>intent = ''submit'', payload = [(''intent'', FormString ''delete-note'')],
      error = [(''noteId'', [Required])], submission_value = None\<rparr>"
  by (simp add: conform_parse_def Let_def DeleteFormSchema_def literal_delete_note_def
        zod_string_def field_issues_def)

subsection \<open>The delete-permission predicate\<close>

text \<open>
  C1. The predicate the loader reports as \<open>canDelete\<close>, and the gate of the action, hold
  exactly when the specification's predicate \<open>can_delete\<close> holds: some permission with
  entity \<open>note\<close> and action \<open>delete\<close>, held by the user through a role, has access
  \<open>any\<close>, or has access \<open>own\<close> while the user is the note's owner. For the loader
  the requesting user is a present, non-empty session user id (the loader's own test for a
  requesting user); the action throws the 403 response exactly when the predicate fails.
\<close>

theorem delete_permission_predicate:
  "(getUserId (request largs) = Some u \<and> u \<noteq> [] \<and>
    lookup_note (param_noteId (params largs)) s = Some n
    \<longrightarrow> fst (loader getUserId fmt s largs) =
          Returned (json (LoaderData \<lparr>data_note = select_loader_note n,
                                        timeAgo = fmt (updatedAt n),
                                        canDelete = can_delete (permission_table s) u (ownerId n)\<rparr>) 200))
   \<and>
   (requireUserId (request args) = Inr u' \<and> intent (submitted parse args) = ''submit'' \<and>
    submission_value (submitted parse args) = Some v \<and> lookup_note (noteId v) s' = Some n'
    \<longrightarrow> (fst (action parse requireUserId s' args) = Done (Thrown unauthorized))
          = (\<not> can_delete (permission_table s') u' (ownerId n')))"
proof (intro conjI impI)
  assume "getUserId (request largs) = Some u \<and> u \<noteq> [] \<and>
    lookup_note (param_noteId (params largs)) s = Some n"
  then show "fst (loader getUserId fmt s largs) =
          Returned (json (LoaderData \<lparr>data_note = select_loader_note n,
                                        timeAgo = fmt (updatedAt n),
                                        canDelete = can_delete (permission_table s) u (ownerId n)\<rparr>) 200)"
    using loader_found [of largs s n getUserId fmt] by simp
next
  assume a: "requireUserId (request args) = Inr u' \<and> intent (submitted parse args) = ''submit'' \<and>
    submission_value (submitted parse args) = Some v \<and> lookup_note (noteId v) s' = Some n'"
  show "(fst (action parse requireUserId s' args) = Done (Thrown unauthorized))
          = (\<not> can_delete (permission_table s') u' (ownerId n'))"
  proof (cases "can_delete (permission_table s') u' (ownerId n')")
    case True
    with a show ?thesis
      using action_allowed [of requireUserId args u' parse v s' n'] by simp
  next
    case False
    with a show ?thesis
      using action_forbidden [of requireUserId args u' parse v s' n'] by simp
  qed
qed

theorem delete_permission_predicate_witness:
  "fst (loader demo_getUserId demo_time demo_store (visit ''kody'' ''kody'' ''n1'')) =
     Returned (json (LoaderData \<lparr>data_note = select_loader_note kody_note,
                                   timeAgo = demo_time (updatedAt kody_note),
                                   canDelete = True\<rparr>) 200)
   \<and> can_delete (permission_table demo_store) ''u1'' (ownerId kody_note)
   \<and> fst (action conform_parse demo_requireUserId demo_store
             (submit ''kody'' ''hannah'' ''n2'' (delete_form_of ''n2''))) = Done (Thrown unauthorized)
   \<and> \<not> can_delete (permission_table demo_store) ''u1'' (ownerId hannah_note)"
  using delete_permission_predicate
    [of demo_getUserId "visit ''kody'' ''kody'' ''n1''" "''u1''" demo_store kody_note demo_time
        demo_requireUserId "submit ''kody'' ''hannah'' ''n2'' (delete_form_of ''n2'')" "''u1''"
        conform_parse "\<lparr>form_intent = ''delete-note'', noteId = ''n2''\<rparr>" demo_store hannah_note]
  by simp

subsection \<open>Deleting without permission\<close>

text \<open>
  C2. A valid delete submission by an actor for whom the delete-permission predicate fails
  on the targeted note: the action throws the response with status 403, the note table is
  unchanged, the targeted note is still there, and the only queries issued are the two
  reads (the note, then the permission): no delete is sent.
\<close>

theorem delete_without_permission:
  assumes "requireUserId (request args) = Inr u"
    and "intent (submitted parse args) = ''submit''"
    and "submission_value (submitted parse args) = Some v"
    and "lookup_note (noteId v) s = Some n"
    and "\<not> can_delete (permission_table s) u (ownerId n)"
  shows "fst (action parse requireUserId s args) = Done (Thrown unauthorized)
       \<and> status unauthorized = 403
       \<and> note_table (snd (action parse requireUserId s args)) = note_table s
       \<and> lookup_note (noteId v) (snd (action parse requireUserId s args)) = Some n
       \<and> issued (snd (action parse requireUserId s args)) =
           issued s @ [NoteFindFirst (noteId v),
                       PermissionFindFirst (delete_permission_where u (ownerId n))]"
  using assms action_forbidden [of requireUserId args u parse v s n]
  by (simp add: unauthorized_def json_def)

theorem delete_without_permission_witness:
  "\<not> can_delete (permission_table demo_store) ''u1'' (ownerId hannah_note)
   \<and> fst (action conform_parse demo_requireUserId demo_store
             (submit ''kody'' ''hannah'' ''n2'' (delete_form_of ''n2''))) = Done (Thrown unauthorized)
   \<and> status unauthorized = 403
   \<and> lookup_note ''n2'' (snd (action conform_parse demo_requireUserId demo_store
             (submit ''kody'' ''hannah'' ''n2'' (delete_form_of ''n2'')))) = Some hannah_note
   \<and> issued (snd (action conform_parse demo_requireUserId demo_store
             (submit ''kody'' ''hannah'' ''n2'' (delete_form_of ''n2'')))) =
        [NoteFindFirst ''n2'', PermissionFindFirst (delete_permission_where ''u1'' ''u2'')]"
  using delete_without_permission
    [of demo_requireUserId "submit ''kody'' ''hannah'' ''n2'' (delete_form_of ''n2'')" "''u1''"
        conform_parse "\<lparr>form_intent = ''delete-note'', noteId = ''n2''\<rparr>" demo_store hannah_note]
  by simp

subsection \<open>Deleting with permission\<close>

text \<open>
  C3. A valid delete submission for an existing note by an actor for whom the predicate
  holds: the action returns a redirect, that is a response with status 302 whose location
  is \<open>/users/{username}/notes\<close>, where the username is that of the owner of the note as
  fetched before the deletion; the note table is the old one without the rows of that id,
  the note is no longer found, and the delete is the last of the three queries issued.
\<close>

theorem delete_with_permission:
  assumes "requireUserId (request args) = Inr u"
    and "intent (submitted parse args) = ''submit''"
    and "submission_value (submitted parse args) = Some v"
    and "lookup_note (noteId v) s = Some n"
    and "can_delete (permission_table s) u (ownerId n)"
  shows "fst (action parse requireUserId s args) =
           Done (Returned \<lparr>status = 302,
                           location = Some (''/users/'' @ username (owner n) @ ''/notes''),
                           body = Empty\<rparr>)
       \<and> note_table (snd (action parse requireUserId s args)) =
           filter (\<lambda>m. note_id m \<noteq> noteId v) (note_table s)
       \<and> lookup_note (noteId v) (snd (action parse requireUserId s args)) = None
       \<and> issued (snd (action parse requireUserId s args)) =
           issued s @ [NoteFindFirst (noteId v),
                       PermissionFindFirst (delete_permission_where u (ownerId n)),
                       NoteDelete (noteId v)]"
  using assms action_allowed [of requireUserId args u parse v s n]
  by (simp add: find_None_iff redirect_def)

theorem delete_with_permission_witness:
  "can_delete (permission_table demo_store) ''u1'' (ownerId kody_note)
   \<and> fst (action conform_parse demo_requireUserId demo_store
             (submit ''kody'' ''kody'' ''n1'' (delete_form_of ''n1''))) =
       Done (Returned \<lparr>status = 302, location = Some ''/users/kody/notes'', body = Empty\<rparr>)
   \<and> note_table (snd (action conform_parse demo_requireUserId demo_store
             (submit ''kody'' ''kody'' ''n1'' (delete_form_of ''n1'')))) = [hannah_note]"
  using delete_with_permission
    [of demo_requireUserId "submit ''kody'' ''kody'' ''n1'' (delete_form_of ''n1'')" "''u1''"
        conform_parse "\<lparr>form_intent = ''delete-note'', noteId = ''n1''\<rparr>" demo_store kody_note]
  by (simp add: demo_note_table)

subsection \<open>The anonymous visitor\<close>

text \<open>
  C4. When the request has no user id, the loader issues the note query and nothing else
  (no permission query), and what it returns for an existing note has \<open>canDelete\<close>
  false.
\<close>

theorem loader_anonymous:
  assumes "getUserId (request args) = None"
  shows "snd (loader getUserId fmt s args) = issue (NoteFindUnique (param_noteId (params args))) s
       \<and> issued (snd (loader getUserId fmt s args)) =
           issued s @ [NoteFindUnique (param_noteId (params args))]
       \<and> fst (loader getUserId fmt s args) =
           (case lookup_note (param_noteId (params args)) s of
              None \<Rightarrow> Thrown not_found
            | Some n \<Rightarrow>
                Returned (json (LoaderData \<lparr>data_note = select_loader_note n,
                                              timeAgo = fmt (updatedAt n),
                                              canDelete = False\<rparr>) 200))"
proof (cases "lookup_note (param_noteId (params args)) s")
  case None
  then show ?thesis
    using loader_missing [of args s getUserId fmt] by simp
next
  case (Some n)
  then show ?thesis
    using assms loader_found [of args s n getUserId fmt] by simp
qed

theorem loader_anonymous_witness:
  "demo_getUserId (request (visit [] ''kody'' ''n1'')) = None
   \<and> fst (loader demo_getUserId demo_time demo_store (visit [] ''kody'' ''n1'')) =
       Returned (json (LoaderData \<lparr>data_note = select_loader_note kody_note,
                                     timeAgo = ''3 days'', canDelete = False\<rparr>) 200)
   \<and> issued (snd (loader demo_getUserId demo_time demo_store (visit [] ''kody'' ''n1''))) =
       [NoteFindUnique ''n1'']"
  using loader_anonymous [of demo_getUserId "visit [] ''kody'' ''n1''" demo_time demo_store]
  by (simp add: demo_time_def)

subsection \<open>A note that does not exist\<close>

text \<open>
  C5. When no note has the requested id, the loader throws a 404 response; so does the
  action, for a valid submission of a logged-in user. In both cases the only query issued
  is the read of the note, and the note table is unchanged.
\<close>

theorem missing_note_404:
  "(lookup_note (param_noteId (params largs)) s = None
    \<longrightarrow> loader getUserId fmt s largs =
          (Thrown not_found, issue (NoteFindUnique (param_noteId (params largs))) s)
        \<and> note_table (snd (loader getUserId fmt s largs)) = note_table s)
   \<and>
   (requireUserId (request args) = Inr u \<and> intent (submitted parse args) = ''submit'' \<and>
    submission_value (submitted parse args) = Some v \<and> lookup_note (noteId v) s' = None
    \<longrightarrow> action parse requireUserId s' args =
          (Done (Thrown not_found), issue (NoteFindFirst (noteId v)) s')
        \<and> note_table (snd (action parse requireUserId s' args)) = note_table s')
   \<and> status not_found = 404"
  using loader_missing [of largs s getUserId fmt]
    action_missing [of requireUserId args u parse v s']
  by simp

theorem missing_note_404_witness:
  "lookup_note ''n9'' demo_store = None
   \<and> loader demo_getUserId demo_time demo_store (visit ''kody'' ''kody'' ''n9'') =
       (Thrown not_found, issue (NoteFindUnique ''n9'') demo_store)
   \<and> action conform_parse demo_requireUserId demo_store
        (submit ''kody'' ''kody'' ''n1'' (delete_form_of ''n9'')) =
       (Done (Thrown not_found), issue (NoteFindFirst ''n9'') demo_store)"
  using missing_note_404
    [of "visit ''kody'' ''kody'' ''n9''" demo_store demo_getUserId demo_time
        demo_requireUserId "submit ''kody'' ''kody'' ''n1'' (delete_form_of ''n9'')" "''u1''"
        conform_parse "\<lparr>form_intent = ''delete-note'', noteId = ''n9''\<rparr>" demo_store]
  by simp

subsection \<open>Validation of the submission\<close>

text \<open>
  C6. For a logged-in user: a submission whose intent is not \<open>submit\<close> comes back in a
  response with HTTP status 200 whose body is the pair of the status \<open>idle\<close> and the
  submission as it was parsed; a submission with intent \<open>submit\<close> and no parsed value
  comes back in a response with HTTP status 400 whose body is the pair of the status
  \<open>error\<close> and the submission, which carries the field errors. The store is untouched
  in both cases. The schema rejects a payload without \<open>noteId\<close> (the field is reported
  as required) and a payload whose \<open>intent\<close> is not the literal \<open>delete-note\<close>.
\<close>

theorem action_validation:
  "(requireUserId (request args) = Inr u \<and> intent (submitted parse args) \<noteq> ''submit''
    \<longrightarrow> action parse requireUserId s args =
          (Done (Returned \<lparr>status = 200, location = None,
                           body = ActionData ''idle'' (submitted parse args)\<rparr>), s))
   \<and>
   (requireUserId (request args) = Inr u \<and> intent (submitted parse args) = ''submit'' \<and>
    submission_value (submitted parse args) = None
    \<longrightarrow> action parse requireUserId s args =
          (Done (Returned \<lparr>status = 400, location = None,
                           body = ActionData ''error'' (submitted parse args)\<rparr>), s))
   \<and>
   (map_of p ''noteId'' = None
    \<longrightarrow> (\<exists>e. DeleteFormSchema p = Inl e \<and> (''noteId'', [Required]) \<in> set e))
   \<and>
   (map_of p ''intent'' \<noteq> Some (FormString ''delete-note'')
    \<longrightarrow> (\<exists>e. DeleteFormSchema p = Inl e \<and> (''intent'', [InvalidLiteral ''delete-note'']) \<in> set e))"
proof (intro conjI impI)
  assume "requireUserId (request args) = Inr u \<and> intent (submitted parse args) \<noteq> ''submit''"
  then show "action parse requireUserId s args =
          (Done (Returned \<lparr>status = 200, location = None,
                           body = ActionData ''idle'' (submitted parse args)\<rparr>), s)"
    using action_not_submit [of requireUserId args u parse s] by (simp add: json_def)
next
  assume "requireUserId (request args) = Inr u \<and> intent (submitted parse args) = ''submit'' \<and>
    submission_value (submitted parse args) = None"
  then show "action parse requireUserId s args =
          (Done (Returned \<lparr>status = 400, location = None,
                           body = ActionData ''error'' (submitted parse args)\<rparr>), s)"
    using action_invalid [of requireUserId args u parse s] by (simp add: json_def)
next
  assume "map_of p ''noteId'' = None"
  then show "\<exists>e. DeleteFormSchema p = Inl e \<and> (''noteId'', [Required]) \<in> set e"
    by (rule schema_missing_noteId)
next
  assume "map_of p ''intent'' \<noteq> Some (FormString ''delete-note'')"
  then show "\<exists>e. DeleteFormSchema p = Inl e \<and> (''intent'', [InvalidLiteral ''delete-note'']) \<in> set e"
    by (rule schema_wrong_intent)
qed

theorem action_validation_witness:
  "action conform_parse demo_requireUserId demo_store
     (submit ''kody'' ''kody'' ''n1''
        ((''__intent__'', FormString ''validate/noteId'') # delete_form_of ''n1'')) =
     (Done (Returned \<lparr>status = 200, location = None, body = ActionData ''idle''
        \<lparr>intent = ''validate/noteId'', payload = delete_form_of ''n1'', error = [],
         submission_value = Some \<lparr>form_intent = ''delete-note'', noteId = ''n1''\<rparr>\<rparr>\<rparr>),
      demo_store)
   \<and> action conform_parse demo_requireUserId demo_store
       (submit ''kody'' ''kody'' ''n1'' [(''intent'', FormString ''delete-note'')]) =
     (Done (Returned \<lparr>status = 400, location = None, body = ActionData ''error''
        \<lparr>intent = ''submit'', payload = [(''intent'', FormString ''delete-note'')],
         error = [(''noteId'', [Required])], submission_value = None\<rparr>\<rparr>),
      demo_store)
   \<and> DeleteFormSchema [(''intent'', FormString ''delete-note'')] = Inl [(''noteId'', [Required])]
   \<and> DeleteFormSchema [(''noteId'', FormString ''n1''), (''intent'', FormString ''edit'')] =
       Inl [(''intent'', [InvalidLiteral ''delete-note''])]"
  using action_validation
    [of demo_requireUserId
        "submit ''kody'' ''kody'' ''n1''
           ((''__intent__'', FormString ''validate/noteId'') # delete_form_of ''n1'')"
        "''u1''" conform_parse demo_store
        "[(''intent'', FormString ''delete-note'')]"]
    action_validation
    [of demo_requireUserId
        "submit ''kody'' ''kody'' ''n1'' [(''intent'', FormString ''delete-note'')]"
        "''u1''" conform_parse demo_store
        "[(''noteId'', FormString ''n1''), (''intent'', FormString ''edit'')]"]
  by (simp add: demo_validate_parse demo_incomplete_parse DeleteFormSchema_def
        literal_delete_note_def zod_string_def field_issues_def)

subsection \<open>The body of the authorization failure\<close>

text \<open>
  C7. Whenever the action, run for a logged-in user, throws a response with status 403, the
  body of that response is the object with the two fields \<open>error\<close> (\<open>Unauthorized\<close>)
  and \<open>message\<close>; the message is one fixed string, the same whichever access scope was
  asked for and for whatever user, note and store, and the error boundary renders the
  fixed text for 403.
\<close>

theorem authorization_failure_payload:
  assumes "requireUserId (request args) = Inr u"
    and "fst (action parse requireUserId s args) = Done (Thrown r)"
    and "status r = 403"
  shows "body r = JsonObject [(''error'', ''Unauthorized''),
                              (''message'', ''Unauthorized: requires permission delete:note'')]
       \<and> statusHandlers (status r) ps = Some ''You are not allowed to do that''"
proof -
  have r: "r = unauthorized"
  proof (cases "intent (submitted parse args) = ''submit''")
    case False
    then show ?thesis
      using assms action_not_submit [of requireUserId args u parse s] by simp
  next
    case submit: True
    show ?thesis
    proof (cases "submission_value (submitted parse args)")
      case None
      then show ?thesis
        using assms submit action_invalid [of requireUserId args u parse s] by simp
    next
      case (Some v)
      show ?thesis
      proof (cases "lookup_note (noteId v) s")
        case None
        then show ?thesis
          using assms submit Some action_missing [of requireUserId args u parse v s] by auto
      next
        case found: (Some n)
        show ?thesis
        proof (cases "can_delete (permission_table s) u (ownerId n)")
          case True
          then show ?thesis
            using assms submit Some found action_allowed [of requireUserId args u parse v s n]
            by simp
        next
          case False
          then show ?thesis
            using assms submit Some found action_forbidden [of requireUserId args u parse v s n]
            by simp
        qed
      qed
    qed
  qed
  show ?thesis
    using assms(3) by (simp add: r unauthorized_def json_def statusHandlers_def)
qed

theorem authorization_failure_payload_witness:
  "demo_requireUserId (request (submit ''kody'' ''hannah'' ''n2'' (delete_form_of ''n2''))) = Inr ''u1''
   \<and> fst (action conform_parse demo_requireUserId demo_store
             (submit ''kody'' ''hannah'' ''n2'' (delete_form_of ''n2''))) = Done (Thrown unauthorized)
   \<and> status unauthorized = 403
   \<and> body unauthorized = JsonObject [(''error'', ''Unauthorized''),
                              (''message'', ''Unauthorized: requires permission delete:note'')]
   \<and> statusHandlers (status unauthorized) \<lparr>param_username = ''hannah'', param_noteId = ''n2''\<rparr>
       = Some ''You are not allowed to do that''"
proof -
  have run: "fst (action conform_parse demo_requireUserId demo_store
             (submit ''kody'' ''hannah'' ''n2'' (delete_form_of ''n2''))) = Done (Thrown unauthorized)"
    using action_forbidden
      [of demo_requireUserId "submit ''kody'' ''hannah'' ''n2'' (delete_form_of ''n2'')" "''u1''"
          conform_parse "\<lparr>form_intent = ''delete-note'', noteId = ''n2''\<rparr>" demo_store hannah_note]
    by simp
  have st: "status unauthorized = 403"
    by (simp add: unauthorized_def json_def)
  show ?thesis
    using run st authorization_failure_payload
      [of demo_requireUserId "submit ''kody'' ''hannah'' ''n2'' (delete_form_of ''n2'')" "''u1''"
          conform_parse demo_store unauthorized
          "\<lparr>param_username = ''hannah'', param_noteId = ''n2''\<rparr>"]
    by simp
qed

subsection \<open>The toolbar of the view\<close>

text \<open>
  C8, as the code has it. The toolbar is shown exactly when the loaded \<open>canDelete\<close> holds
  or the viewer is the owner of the note; the delete form is shown exactly when
  \<open>canDelete\<close> holds (being the owner is not enough); the edit link is shown exactly when
  the toolbar is.
\<close>

theorem toolbar_controls:
  "bar_shown (NoteRoute getNoteImgSrc d ou) = (canDelete d \<or> is_owner ou d)
   \<and> delete_shown (NoteRoute getNoteImgSrc d ou) = canDelete d
   \<and> edit_shown (NoteRoute getNoteImgSrc d ou) = bar_shown (NoteRoute getNoteImgSrc d ou)"
  by (cases ou) (simp_all add: NoteRoute_def bar_shown_def delete_shown_def edit_shown_def
        is_owner_def Let_def)

text \<open>
  C8, as stated, fails: with no delete permission in the store, the loader reports
  \<open>canDelete\<close> false for the owner of the note; the toolbar is shown to the owner, but
  the delete form is not in it, although the viewer is the owner.
\<close>

theorem owner_without_permission_counterexample:
  "fst (loader demo_getUserId demo_time bare_store (visit ''kody'' ''kody'' ''n1'')) =
     Returned (json (LoaderData owner_data) 200)
   \<and> is_owner (Some kody) owner_data
   \<and> bar_shown (NoteRoute (\<lambda>i. i) owner_data (Some kody))
   \<and> \<not> delete_shown (NoteRoute (\<lambda>i. i) owner_data (Some kody))"
proof -
  have l: "lookup_note (param_noteId (params (visit ''kody'' ''kody'' ''n1''))) bare_store
           = Some kody_note"
    by (simp add: bare_store_def)
  have c: "\<not> can_delete (permission_table bare_store) ''u1'' (ownerId kody_note)"
    by (simp add: can_delete_def bare_store_def)
  have "fst (loader demo_getUserId demo_time bare_store (visit ''kody'' ''kody'' ''n1'')) =
     Returned (json (LoaderData owner_data) 200)"
    using loader_found [OF l, of demo_getUserId demo_time] c
    by (simp add: owner_data_def demo_time_def)
  moreover have "is_owner (Some kody) owner_data"
    by (simp add: is_owner_def owner_data_def select_loader_note_def kody_def)
  moreover have "bar_shown (NoteRoute (\<lambda>i. i) owner_data (Some kody))"
    by (simp add: NoteRoute_def bar_shown_def owner_data_def select_loader_note_def kody_def
          Let_def)
  moreover have "\<not> delete_shown (NoteRoute (\<lambda>i. i) owner_data (Some kody))"
    by (simp add: NoteRoute_def delete_shown_def owner_data_def Let_def)
  ultimately show ?thesis by simp
qed

subsection \<open>The note that is deleted\<close>

text \<open>
  C9. The action does not depend on the route parameters: replacing them changes neither
  the outcome nor the store. For a valid submission of a logged-in user, the note that is
  fetched is the one whose id is the \<open>noteId\<close> of the parsed value; the permission
  query that follows is the one for the requesting user and the owner of that note, and
  the 403 response is thrown exactly when the predicate fails for that owner; the delete,
  issued exactly when the predicate holds, names the same id, and the note table then
  loses exactly the rows of that id and is unchanged otherwise. When no note has that id
  only the read is issued. The \<open>noteId\<close> of a value the schema accepts is the
  \<open>noteId\<close> field of the payload.
\<close>

theorem deletion_target_is_form_noteId:
  "action parse requireUserId s (args\<lparr>params := p\<rparr>) = action parse requireUserId s args
   \<and>
   (requireUserId (request args) = Inr u \<and> intent (submitted parse args) = ''submit'' \<and>
    submission_value (submitted parse args) = Some v \<and> lookup_note (noteId v) s = Some n
    \<longrightarrow> issued (snd (action parse requireUserId s args)) =
          issued s @ [NoteFindFirst (noteId v),
                      PermissionFindFirst (delete_permission_where u (ownerId n))]
                   @ (if can_delete (permission_table s) u (ownerId n)
                      then [NoteDelete (noteId v)] else [])
        \<and> note_table (snd (action parse requireUserId s args)) =
            (if can_delete (permission_table s) u (ownerId n)
             then filter (\<lambda>m. note_id m \<noteq> noteId v) (note_table s)
             else note_table s)
        \<and> (fst (action parse requireUserId s args) = Done (Thrown unauthorized))
            = (\<not> can_delete (permission_table s) u (ownerId n)))
   \<and>
   (requireUserId (request args) = Inr u \<and> intent (submitted parse args) = ''submit'' \<and>
    submission_value (submitted parse args) = Some v \<and> lookup_note (noteId v) s = None
    \<longrightarrow> issued (snd (action parse requireUserId s args)) = issued s @ [NoteFindFirst (noteId v)]
        \<and> note_table (snd (action parse requireUserId s args)) = note_table s)
   \<and>
   (DeleteFormSchema pl = Inr v' \<longrightarrow> map_of pl ''noteId'' = Some (FormString (noteId v')))"
proof (intro conjI impI)
  show "action parse requireUserId s (args\<lparr>params := p\<rparr>) = action parse requireUserId s args"
    by (rule action_ignores_params)
next
  assume a: "requireUserId (request args) = Inr u \<and> intent (submitted parse args) = ''submit'' \<and>
    submission_value (submitted parse args) = Some v \<and> lookup_note (noteId v) s = Some n"
  have run: "action parse requireUserId s args =
     (if can_delete (permission_table s) u (ownerId n)
      then (Done (Returned (redirect (''/users/'' @ username (owner n) @ ''/notes''))),
            issue (NoteDelete (noteId v))
              ((issue (PermissionFindFirst (delete_permission_where u (ownerId n)))
                 (issue (NoteFindFirst (noteId v)) s))
               \<lparr>note_table := filter (\<lambda>m. note_id m \<noteq> noteId v) (note_table s)\<rparr>))
      else (Done (Thrown unauthorized),
            issue (PermissionFindFirst (delete_permission_where u (ownerId n)))
              (issue (NoteFindFirst (noteId v)) s)))"
    using a action_allowed [of requireUserId args u parse v s n]
      action_forbidden [of requireUserId args u parse v s n]
    by simp
  show "issued (snd (action parse requireUserId s args)) =
          issued s @ [NoteFindFirst (noteId v),
                      PermissionFindFirst (delete_permission_where u (ownerId n))]
                   @ (if can_delete (permission_table s) u (ownerId n)
                      then [NoteDelete (noteId v)] else [])"
    by (simp add: run)
  show "note_table (snd (action parse requireUserId s args)) =
            (if can_delete (permission_table s) u (ownerId n)
             then filter (\<lambda>m. note_id m \<noteq> noteId v) (note_table s)
             else note_table s)"
    by (simp add: run)
  show "(fst (action parse requireUserId s args) = Done (Thrown unauthorized))
            = (\<not> can_delete (permission_table s) u (ownerId n))"
    by (simp add: run)
next
  assume a: "requireUserId (request args) = Inr u \<and> intent (submitted parse args) = ''submit'' \<and>
    submission_value (submitted parse args) = Some v \<and> lookup_note (noteId v) s = None"
  then have run: "action parse requireUserId s args =
     (Done (Thrown not_found), issue (NoteFindFirst (noteId v)) s)"
    using action_missing [of requireUserId args u parse v s] by simp
  show "issued (snd (action parse requireUserId s args)) = issued s @ [NoteFindFirst (noteId v)]"
    by (simp add: run)
  show "note_table (snd (action parse requireUserId s args)) = note_table s"
    by (simp add: run)
next
  assume "DeleteFormSchema pl = Inr v'"
  then show "map_of pl ''noteId'' = Some (FormString (noteId v'))"
    by (rule schema_noteId)
qed

theorem deletion_target_is_form_noteId_witness:
  "param_noteId (params (submit ''kody'' ''hannah'' ''n2'' (delete_form_of ''n1''))) = ''n2''
   \<and> map_of (delete_form_of ''n1'') ''noteId'' = Some (FormString ''n1'')
   \<and> action conform_parse demo_requireUserId demo_store
        (submit ''kody'' ''hannah'' ''n2'' (delete_form_of ''n1'')) =
      action conform_parse demo_requireUserId demo_store
        (submit ''kody'' ''kody'' ''n1'' (delete_form_of ''n1''))
   \<and> issued (snd (action conform_parse demo_requireUserId demo_store
        (submit ''kody'' ''hannah'' ''n2'' (delete_form_of ''n1'')))) =
       [NoteFindFirst ''n1'', PermissionFindFirst (delete_permission_where ''u1'' ''u1''),
        NoteDelete ''n1'']
   \<and> note_table (snd (action conform_parse demo_requireUserId demo_store
        (submit ''kody'' ''hannah'' ''n2'' (delete_form_of ''n1'')))) = [hannah_note]
   \<and> param_noteId (params (submit ''kody'' ''kody'' ''n1'' (delete_form_of ''n2''))) = ''n1''
   \<and> issued (snd (action conform_parse demo_requireUserId demo_store
        (submit ''kody'' ''kody'' ''n1'' (delete_form_of ''n2'')))) =
       [NoteFindFirst ''n2'', PermissionFindFirst (delete_permission_where ''u1'' ''u2'')]
   \<and> note_table (snd (action conform_parse demo_requireUserId demo_store
        (submit ''kody'' ''kody'' ''n1'' (delete_form_of ''n2'')))) = [kody_note, hannah_note]
   \<and> fst (action conform_parse demo_requireUserId demo_store
        (submit ''kody'' ''kody'' ''n1'' (delete_form_of ''n2''))) = Done (Thrown unauthorized)"
proof -
  have args: "(submit ''kody'' ''kody'' ''n1'' (delete_form_of ''n1''))
                \<lparr>params := \<lparr>param_username = ''hannah'', param_noteId = ''n2''\<rparr>\<rparr>
              = submit ''kody'' ''hannah'' ''n2'' (delete_form_of ''n1'')"
    by (simp add: submit_def)
  have own: "action conform_parse demo_requireUserId demo_store
        (submit ''kody'' ''hannah'' ''n2'' (delete_form_of ''n1'')) =
      action conform_parse demo_requireUserId demo_store
        (submit ''kody'' ''kody'' ''n1'' (delete_form_of ''n1''))
   \<and> issued (snd (action conform_parse demo_requireUserId demo_store
        (submit ''kody'' ''kody'' ''n1'' (delete_form_of ''n1'')))) =
       [NoteFindFirst ''n1'', PermissionFindFirst (delete_permission_where ''u1'' ''u1''),
        NoteDelete ''n1'']
   \<and> note_table (snd (action conform_parse demo_requireUserId demo_store
        (submit ''kody'' ''kody'' ''n1'' (delete_form_of ''n1'')))) = [hannah_note]"
    using deletion_target_is_form_noteId
      [of conform_parse demo_requireUserId demo_store
          "\<lparr>param_username = ''hannah'', param_noteId = ''n2''\<rparr>"
          "submit ''kody'' ''kody'' ''n1'' (delete_form_of ''n1'')" "''u1''"
          "\<lparr>form_intent = ''delete-note'', noteId = ''n1''\<rparr>" kody_note
          "delete_form_of ''n1''" "\<lparr>form_intent = ''delete-note'', noteId = ''n1''\<rparr>"]
    by (simp add: args demo_note_table)
  have other: "issued (snd (action conform_parse demo_requireUserId demo_store
        (submit ''kody'' ''kody'' ''n1'' (delete_form_of ''n2'')))) =
       [NoteFindFirst ''n2'', PermissionFindFirst (delete_permission_where ''u1'' ''u2'')]
   \<and> note_table (snd (action conform_parse demo_requireUserId demo_store
        (submit ''kody'' ''kody'' ''n1'' (delete_form_of ''n2'')))) = [kody_note, hannah_note]
   \<and> fst (action conform_parse demo_requireUserId demo_store
        (submit ''kody'' ''kody'' ''n1'' (delete_form_of ''n2''))) = Done (Thrown unauthorized)"
    using deletion_target_is_form_noteId
      [of conform_parse demo_requireUserId demo_store
          "\<lparr>param_username = ''kody'', param_noteId = ''n1''\<rparr>"
          "submit ''kody'' ''kody'' ''n1'' (delete_form_of ''n2'')" "''u1''"
          "\<lparr>form_intent = ''delete-note'', noteId = ''n2''\<rparr>" hannah_note
          "delete_form_of ''n2''" "\<lparr>form_intent = ''delete-note'', noteId = ''n2''\<rparr>"]
    by (simp add: demo_note_table)
  have form: "map_of (delete_form_of ''n1'') ''noteId'' = Some (FormString ''n1'')"
    by (simp add: delete_form_of_def)
  show ?thesis
    using own other form by simp
qed

subsection \<open>The description of the page\<close>

text \<open>
  C10. For a loaded note, the description metadata is the constant \<open>No content\<close> when
  the content has at most 100 characters, and the first 97 characters followed by three
  dots when it has more.
\<close>

theorem meta_description:
  assumes "meta_data a = Some d"
  shows "\<exists>t. meta a =
           [MetaTitle t,
            MetaName ''description''
              (if length (data_content (data_note d)) \<le> 100 then ''No content''
               else take 97 (data_content (data_note d)) @ ''...'')]"
  using assms by (simp add: meta_def Let_def)

theorem meta_description_witness:
  "length (content kody_note) \<le> 100
   \<and> meta (loaded kody_note) =
       [MetaTitle ''Koalas | kody's Notes | Epic Notes'', MetaName ''description'' ''No content'']
   \<and> length (content hannah_note) = 101
   \<and> meta (loaded hannah_note) =
       [MetaTitle ''Tea | hannah's Notes | Epic Notes'',
        MetaName ''description'' (replicate 97 (CHR ''t'') @ ''...'')]"
  using meta_description [of "loaded kody_note" "\<lparr>data_note = select_loader_note kody_note, timeAgo = ''3 days'', canDelete = False\<rparr>"]
    meta_description [of "loaded hannah_note" "\<lparr>data_note = select_loader_note hannah_note, timeAgo = ''3 days'', canDelete = False\<rparr>"]
  by (simp add: loaded_def meta_def Let_def select_loader_note_def kody_note_def hannah_note_def
        kody_def hannah_def)

end
